theory Spec2Isabelle
  imports Main "HOL-Library.Char_ord" "HOL-Library.List_Lexorder"
begin

section \<open>Python dictionaries and strings\<close>

text \<open>
  A Python \<open>dict\<close> keeps its keys in insertion order, so it is an association list whose
  keys are pairwise distinct. Storing under a key that is already present replaces the
  value and keeps the key's position; a new key goes to the end.
\<close>

type_synonym ('k, 'v) dict = "('k \<times> 'v) list"

fun dict_setitem :: "('k, 'v) dict \<Rightarrow> 'k \<Rightarrow> 'v \<Rightarrow> ('k, 'v) dict" where
  "dict_setitem [] k v = [(k, v)]"
| "dict_setitem ((k', v') # d) k v =
     (if k' = k then (k', v) # d else (k', v') # dict_setitem d k v)"

text \<open>\<open>d.update(other)\<close>: every item of \<open>other\<close>, in its order, is stored into \<open>d\<close>.\<close>

fun dict_update :: "('k, 'v) dict \<Rightarrow> ('k, 'v) dict \<Rightarrow> ('k, 'v) dict" where
  "dict_update d [] = d"
| "dict_update d ((k, v) # other) = dict_update (dict_setitem d k v) other"

text \<open>\<open>sep.join(xs)\<close> on strings.\<close>

fun str_join :: "string \<Rightarrow> string list \<Rightarrow> string" where
  "str_join sep [] = []"
| "str_join sep [x] = x"
| "str_join sep (x # y # ys) = x @ sep @ str_join sep (y # ys)"

section \<open>Exceptions\<close>

text \<open>
  \<open>TypeError\<close> carries a message: the one built in \<open>Event.__init__\<close>, or the interpreter's
  for a value that is used as something it is not. Two more \<open>TypeError\<close>s of the
  interpreter keep only the name they are about, since their text is the interpreter's:
  \<open>MultipleValues\<close> is raised when a keyword of a call names a parameter that the call has
  already bound by position (\<open>got multiple values for argument\<close>), and \<open>DuplicateKeyword\<close>
  at a call \<open>f(**a, **b)\<close> when \<open>a\<close> and \<open>b\<close> share a keyword. \<open>CodecError\<close> stands for
  whatever the imported \<open>dumps\<close> and \<open>loads\<close> raise.
\<close>

datatype error =
    TypeError string
  | MultipleValues string
  | DuplicateKeyword string
  | KeyError string
  | AttributeError string
  | CodecError string

section \<open>Class objects and \<open>Event.__init_subclass__\<close>\<close>

text \<open>
  A class object, as far as \<open>event.py\<close> reads and writes it. \<open>cls_id\<close> is the identity of
  the object (\<open>==\<close> on classes is identity); \<open>cls_annotations\<close> is the value of
  \<open>cls.__annotations__\<close>, \<open>None\<close> when that attribute access raises \<open>AttributeError\<close>;
  \<open>cls_serializer\<close>, \<open>cls_fields\<close> and \<open>cls_fieldset\<close> are the attributes \<open>serializer\<close>,
  \<open>_fields\<close> and \<open>_fieldset\<close> as an attribute access on the class finds them.
\<close>

record 'ty pyclass =
  cls_id :: nat
  cls_name :: string
  cls_annotations :: "(string, 'ty) dict option"
  cls_serializer :: "string option"
  cls_fields :: "(string, 'ty) dict"
  cls_fieldset :: "string set"

text \<open>
  The loop \<open>for cls in reversed(cls.__mro__)\<close> with its two local variables \<open>fields\<close> (here \<open>flds\<close>)
  and \<open>wanted_baseclass\<close>. The first argument is the class \<open>Event\<close> itself, the second what is
  left of the reversed method resolution order.
\<close>

fun walk_mro ::
  "'ty pyclass \<Rightarrow> 'ty pyclass list \<Rightarrow> (string, 'ty) dict \<Rightarrow> bool \<Rightarrow> (string, 'ty) dict" where
  "walk_mro Event [] flds wanted_baseclass = flds"
| "walk_mro Event (c # cs) flds wanted_baseclass =
     (if wanted_baseclass then
        (case cls_annotations c of
           Some annotations \<Rightarrow> walk_mro Event cs (dict_update flds annotations) wanted_baseclass
         | None \<Rightarrow> walk_mro Event cs flds wanted_baseclass)
      else walk_mro Event cs flds (cls_id c = cls_id Event))"

text \<open>
  \<open>Event.__init_subclass__(cls, serializer=None)\<close>, run by the class statement that creates
  \<open>cls\<close>. The method resolution order of \<open>cls\<close> is \<open>cls # ancestors\<close> (a class is always the
  first entry of its own \<open>__mro__\<close>), so the loop variable, which shadows \<open>cls\<close>, is \<open>cls\<close>
  again when the loop ends and the three assignments all go to the new class. The keyword
  \<open>serializer\<close> may be absent from the class statement: then the parameter takes its
  default \<open>None\<close>. No other keyword is passed on to \<open>super().__init_subclass__\<close>.
\<close>

definition init_subclass ::
  "'ty pyclass \<Rightarrow> 'ty pyclass \<Rightarrow> 'ty pyclass list \<Rightarrow> string option option \<Rightarrow> 'ty pyclass" where
  "init_subclass Event cls ancestors serializer_kw =
     (let serializer = (case serializer_kw of None \<Rightarrow> None | Some s \<Rightarrow> s);
          flds = walk_mro Event (rev (cls # ancestors)) [] False
      in cls\<lparr>cls_serializer := serializer,
              cls_fields := flds,
              cls_fieldset := set (map fst flds)\<rparr>)"

section \<open>Event instances\<close>

text \<open>An instance: its class and its \<open>__dict__\<close>.\<close>

record ('ty, 'v) event_instance =
  ev_type :: "'ty pyclass"
  ev_dict :: "(string, 'v) dict"

text \<open>
  An attribute read \<open>self.name\<close>, for a name that the class binds to a plain value or to a
  function, looks into \<open>self.__dict__\<close> first and falls back on the class. Since
  \<open>__init__\<close> stores the field values in \<open>__dict__\<close>, a field named like an attribute of
  the class hides that attribute on the instance.
\<close>

datatype ('c, 'v) found = OnClass 'c | OnInstance 'v



text \<open>
  The call \<open>cls(**fields)\<close> into \<open>Event.__init__(self, **fields)\<close>; the keyword dictionary
  \<open>fields\<close> (here \<open>kwfields\<close>) is in call order. The instance is bound to \<open>self\<close> by
  position, so a keyword \<open>self\<close> makes the call raise before the body runs. The body reads
  \<open>self._fieldset\<close> while \<open>__dict__\<close> is still empty, which finds the attribute of the
  class.
\<close>

definition Event_init :: "'ty pyclass \<Rightarrow> (string, 'v) dict \<Rightarrow> error + ('ty, 'v) event_instance" where
  "Event_init cls kwfields =
     (if ''self'' \<in> set (map fst kwfields) then Inl (MultipleValues ''self'')
      else
        (let fieldset = set (map fst kwfields);
             missing = cls_fieldset cls - fieldset
         in if missing \<noteq> {} then
              Inl (TypeError (cls_name cls @ '' missing required arguments: ''
                                @ str_join '', '' (sorted_list_of_set missing)))
            else
              (let extraneous = fieldset - cls_fieldset cls
               in if extraneous \<noteq> {} then
                    Inl (TypeError (cls_name cls @ '' got unexpected arguments: ''
                                      @ str_join '', '' (sorted_list_of_set extraneous)))
                  else Inr \<lparr>ev_type = cls, ev_dict = dict_update [] kwfields\<rparr>)))"



text \<open>
  \<open>Event._asdict\<close>: \<open>dict(self._asitems())\<close>. What it returns is the mapping built from
  the pairs, or, when a field value is found under \<open>_asitems\<close>, whatever object \<open>dict\<close>
  makes of that value's call.
\<close>

datatype 'v pyobject = Mapping "(string, 'v) dict" | Object 'v


text \<open>
  The functions \<open>dumps\<close> and \<open>loads\<close> that \<open>event.py\<close> imports from
  \<open>utils.serialization\<close> are parameters of the model; each either raises or returns.
  \<open>dumps\<close> receives what \<open>self.serializer\<close> and \<open>self._asdict()\<close> evaluate to, \<open>loads\<close> the
  \<open>serializer\<close> of the class (possibly \<open>None\<close>) and the payload.
\<close>

record ('p, 'v) serialization =
  ser_dumps :: "(string option, 'v) found \<Rightarrow> 'v pyobject \<Rightarrow> error + 'p"
  ser_loads :: "string option \<Rightarrow> 'p \<Rightarrow> error + (string, 'v) dict"


text \<open>
  The call \<open>cls(**kwargs, **d)\<close> builds one keyword dictionary: the items of \<open>kwargs\<close>, then
  those of \<open>d\<close>; a keyword of \<open>d\<close> that is already there makes the call raise.
\<close>

fun merge_kwargs :: "(string, 'v) dict \<Rightarrow> (string, 'v) dict \<Rightarrow> error + (string, 'v) dict" where
  "merge_kwargs kw [] = Inr kw"
| "merge_kwargs kw ((k, v) # d) =
     (if k \<in> set (map fst kw) then Inl (DuplicateKeyword k)
      else merge_kwargs (kw @ [(k, v)]) d)"

text \<open>
  The call \<open>cls.loads(s, **kwargs)\<close> into the class method \<open>Event.loads(cls, s, **kwargs)\<close>,
  whose body is \<open>cls(**kwargs, **loads(cls.serializer, s))\<close>. \<open>cls\<close> and \<open>s\<close> are bound by
  position, so the first keyword with one of these names makes the call raise.
\<close>

definition Event_loads ::
  "('p, 'v) serialization \<Rightarrow> 'ty pyclass \<Rightarrow> 'p \<Rightarrow> (string, 'v) dict
     \<Rightarrow> error + ('ty, 'v) event_instance" where
  "Event_loads ser cls s kwargs =
     (case find (\<lambda>k. k = ''cls'' \<or> k = ''s'') (map fst kwargs) of
        Some k \<Rightarrow> Inl (MultipleValues k)
      | None \<Rightarrow>
          (case ser_loads ser (cls_serializer cls) s of
             Inl e \<Rightarrow> Inl e
           | Inr d \<Rightarrow>
               (case merge_kwargs kwargs d of
                  Inl e \<Rightarrow> Inl e
                | Inr kwfields \<Rightarrow> Event_init cls kwfields)))"

text \<open>
  Modelled from the spec: the types \<open>Request\<close> and \<open>Message\<close> of \<open>types.py\<close>, a module
  that \<open>event.py\<close> imports. The spec gives the request context as a plain tuple of key,
  topic name, partition index and raw message, which is how
  \<open>Request(key, topic, partition, message)\<close> is called; of a message the code reads
  \<open>message.value\<close> only. The values an instance dictionary holds are then either such a
  request or a value of the payload.
\<close>

record 'p Message =
  msg_value :: 'p

record ('k, 'm) Request =
  req_key :: 'k
  req_topic :: string
  req_partition :: int
  req_message :: 'm

datatype ('k, 'm, 'v) pyvalue = RequestValue "('k, 'm) Request" | PlainValue 'v

text \<open>\<open>Event.from_message(cls, key, topic, partition, message)\<close>.\<close>

definition from_message ::
  "('p, ('k, 'p Message, 'v) pyvalue) serialization \<Rightarrow> 'ty pyclass \<Rightarrow> 'k \<Rightarrow> string \<Rightarrow> int
     \<Rightarrow> 'p Message \<Rightarrow> error + ('ty, ('k, 'p Message, 'v) pyvalue) event_instance" where
  "from_message ser cls key topic partition' message =
     (let request = \<lparr>req_key = key, req_topic = topic, req_partition = partition',
                      req_message = message\<rparr>
      in Event_loads ser cls (msg_value message) [(''req'', RequestValue request)])"

text \<open>
  \<open>_kvrepr(d, sep, fmt)\<close> with the default \<open>fmt = '{0}={1!r}'\<close>; \<open>repr\<close> is the debug
  representation of the values. \<open>Event.__repr__\<close> applies it to \<open>self.__dict__\<close>.
\<close>

definition kvrepr :: "('v \<Rightarrow> string) \<Rightarrow> (string, 'v) dict \<Rightarrow> string \<Rightarrow> string" where
  "kvrepr repr d sep = str_join sep (map (\<lambda>(k, v). k @ ''='' @ repr v) d)"

definition Event_repr :: "('v \<Rightarrow> string) \<Rightarrow> ('ty, 'v) event_instance \<Rightarrow> string" where
  "Event_repr repr self =
     ''<'' @ cls_name (ev_type self) @ '': '' @ kvrepr repr (ev_dict self) '', '' @ ''>''"

section \<open>Field descriptors and bound events\<close>

record FieldDescriptor =
  field :: string

definition FieldDescriptor_init :: "string \<Rightarrow> FieldDescriptor" where
  "FieldDescriptor_init f = \<lparr>field = f\<rparr>"

text \<open>
  \<open>FieldDescriptor.join\<close> prints one line and falls off its end, so it returns \<open>None\<close>.
  The model returns the printed line together with the returned value; \<open>repr\<close> is the
  debug representation of a string, as \<open>%r\<close> renders it. \<open>__and__\<close> calls \<open>join\<close>.
\<close>

definition FieldDescriptor_join ::
  "(string \<Rightarrow> string) \<Rightarrow> FieldDescriptor \<Rightarrow> FieldDescriptor \<Rightarrow> string \<times> 'r option" where
  "FieldDescriptor_join repr self other =
     (''join '' @ repr (field self) @ '' with '' @ repr (field other), None)"

definition FieldDescriptor_and ::
  "(string \<Rightarrow> string) \<Rightarrow> FieldDescriptor \<Rightarrow> FieldDescriptor \<Rightarrow> string \<times> 'r option" where
  "FieldDescriptor_and repr self other = FieldDescriptor_join repr self other"

text \<open>
  \<open>BoundEvent.__init__(self, event, obj)\<close> sets \<open>event\<close> and \<open>obj\<close>, then stores one
  \<open>FieldDescriptor\<close> per key of \<open>self.event.__annotations__\<close> into \<open>self.__dict__\<close>. Reading
  \<open>__annotations__\<close> is not guarded here.
\<close>

datatype ('ty, 'o) bound_attr =
    EventAttr "'ty pyclass"
  | ObjAttr 'o
  | DescriptorAttr FieldDescriptor

definition make_field_descriptor :: "string \<Rightarrow> FieldDescriptor" where
  "make_field_descriptor f = FieldDescriptor_init f"

definition BoundEvent_init ::
  "'ty pyclass \<Rightarrow> 'o \<Rightarrow> error + (string, ('ty, 'o) bound_attr) dict" where
  "BoundEvent_init event obj =
     (let d = [(''event'', EventAttr event), (''obj'', ObjAttr obj)]
      in case cls_annotations event of
           None \<Rightarrow> Inl (AttributeError ''__annotations__'')
         | Some annotations \<Rightarrow>
             Inr (dict_update d
                    (dict_update []
                       (map (\<lambda>f. (f, DescriptorAttr (make_field_descriptor f)))
                            (map fst annotations)))))"

section \<open>Example declarations\<close>

text \<open>
  The classes of a small module, used to run the definitions on concrete inputs. Declared
  types are given by their source text. \<open>object\<close> has no \<open>__annotations__\<close>; \<open>Event\<close>
  annotates \<open>req\<close> and \<open>_fields\<close>. A class object enters \<open>__init_subclass__\<close> with the
  attributes it inherits from its first base.
  \<^verbatim>\<open>
  class Base(Event, serializer='json'):
      a: int
      b: int

  class Derived(Base):
      b: str
      c: str

  class Order(Event, serializer='json'):
      amount: int
      currency: str

  class SelfField(Event):
      self: int

  class Shadow(Event, serializer='json'):
      _fields: int
  \<close>
\<close>

definition object_cls :: "string pyclass" where
  "object_cls = \<lparr>cls_id = 0, cls_name = ''object'', cls_annotations = None,
                  cls_serializer = None, cls_fields = [], cls_fieldset = {}\<rparr>"

definition Event_cls :: "string pyclass" where
  "Event_cls = \<lparr>cls_id = 1, cls_name = ''Event'',
                 cls_annotations =
                   Some [(''req'', ''Request''), (''_fields'', ''Mapping[str, type]'')],
                 cls_serializer = None, cls_fields = [], cls_fieldset = {}\<rparr>"

definition Base_cls :: "string pyclass" where
  "Base_cls = init_subclass Event_cls
     \<lparr>cls_id = 2, cls_name = ''Base'',
      cls_annotations = Some [(''a'', ''int''), (''b'', ''int'')],
      cls_serializer = cls_serializer Event_cls, cls_fields = cls_fields Event_cls,
      cls_fieldset = cls_fieldset Event_cls\<rparr>
     [Event_cls, object_cls] (Some (Some ''json''))"

definition Derived_cls :: "string pyclass" where
  "Derived_cls = init_subclass Event_cls
     \<lparr>cls_id = 3, cls_name = ''Derived'',
      cls_annotations = Some [(''b'', ''str''), (''c'', ''str'')],
      cls_serializer = cls_serializer Base_cls, cls_fields = cls_fields Base_cls,
      cls_fieldset = cls_fieldset Base_cls\<rparr>
     [Base_cls, Event_cls, object_cls] None"

definition Order_cls :: "string pyclass" where
  "Order_cls = init_subclass Event_cls
     \<lparr>cls_id = 4, cls_name = ''Order'',
      cls_annotations = Some [(''amount'', ''int''), (''currency'', ''str'')],
      cls_serializer = cls_serializer Event_cls, cls_fields = cls_fields Event_cls,
      cls_fieldset = cls_fieldset Event_cls\<rparr>
     [Event_cls, object_cls] (Some (Some ''json''))"

definition SelfField_cls :: "string pyclass" where
  "SelfField_cls = init_subclass Event_cls
     \<lparr>cls_id = 5, cls_name = ''SelfField'',
      cls_annotations = Some [(''self'', ''int'')],
      cls_serializer = cls_serializer Event_cls, cls_fields = cls_fields Event_cls,
      cls_fieldset = cls_fieldset Event_cls\<rparr>
     [Event_cls, object_cls] None"





text \<open>
  The same identifier with a payload of plain pairs, for instance dictionaries that may
  hold a request: a request is not serializable.
\<close>

fun encode_pairs :: "(string, ('k, 'm, 'v) pyvalue) dict \<Rightarrow> error + (string \<times> 'v) list" where
  "encode_pairs [] = Inr []"
| "encode_pairs ((k, RequestValue r) # d) = Inl (CodecError ''not serializable'')"
| "encode_pairs ((k, PlainValue v) # d) =
     (case encode_pairs d of Inl e \<Rightarrow> Inl e | Inr p \<Rightarrow> Inr ((k, v) # p))"

definition pairs_codec :: "((string \<times> 'v) list, ('k, 'm, 'v) pyvalue) serialization" where
  "pairs_codec =
     \<lparr>ser_dumps = (\<lambda>sid obj. case obj of
                        Mapping d \<Rightarrow> if sid = OnClass (Some ''json'') then encode_pairs d
                                     else Inl (CodecError ''unknown serializer'')
                      | Object v \<Rightarrow> Inl (CodecError ''not a mapping'')),
      ser_loads = (\<lambda>sid p. if sid = Some ''json'' then Inr (map (\<lambda>(k, v). (k, PlainValue v)) p)
                            else Inl (CodecError ''unknown serializer''))\<rparr>"

section \<open>Facts about dictionaries\<close>

lemma map_fst_dict_setitem:
  "map fst (dict_setitem d k v) = (if k \<in> set (map fst d) then map fst d else map fst d @ [k])"
  by (induction d) force+

lemma keys_dict_setitem: "set (map fst (dict_setitem d k v)) = insert k (set (map fst d))"
  unfolding map_fst_dict_setitem by auto

lemma dict_setitem_new: "k \<notin> set (map fst d) \<Longrightarrow> dict_setitem d k v = d @ [(k, v)]"
  by (induction d) auto


lemma keys_dict_update:
  "set (map fst (dict_update d other)) = set (map fst d) \<union> set (map fst other)"
proof (induction d other rule: dict_update.induct)
  case (1 d)
  then show ?case by simp
next
  case (2 d k v other)
  then show ?case using keys_dict_setitem [of d k v] by auto
qed

lemma dict_update_distinct:
  "distinct (map fst (d @ other)) \<Longrightarrow> dict_update d other = d @ other"
proof (induction d other rule: dict_update.induct)
  case (1 d)
  then show ?case by simp
next
  case (2 d k v other)
  have new: "k \<notin> set (map fst d)" using "2.prems" by auto
  have "distinct (map fst (dict_setitem d k v @ other))"
    using "2.prems" by (simp add: dict_setitem_new [OF new])
  then show ?case using "2.IH" by (simp add: dict_setitem_new [OF new])
qed

lemma dict_update_empty: "distinct (map fst kw) \<Longrightarrow> dict_update [] kw = kw"
  using dict_update_distinct [of "[]" kw] by simp




section \<open>Schema derivation\<close>

text \<open>Until the walk has met \<open>Event\<close>, a class only moves the walk on.\<close>

lemma walk_mro_skip:
  "\<forall>c \<in> set supers. cls_id c \<noteq> cls_id Event \<Longrightarrow>
   walk_mro Event (supers @ rest) flds False = walk_mro Event rest flds False"
  by (induction supers) auto

lemma walk_mro_from_Event:
  assumes "\<forall>c \<in> set supers. cls_id c \<noteq> cls_id Event"
  shows "walk_mro Event (rev (cls # subs @ Event # supers)) [] False =
         walk_mro Event (rev (cls # subs)) [] True"
  using walk_mro_skip [of "rev supers" Event "Event # rev subs @ [cls]" "[]"] assms by simp

lemma keys_walk_mro:
  "set (map fst (walk_mro Event cs flds True)) =
     set (map fst flds) \<union>
     (\<Union>c \<in> set cs. case cls_annotations c of None \<Rightarrow> {} | Some a \<Rightarrow> set (map fst a))"
proof (induction cs arbitrary: flds)
  case Nil
  then show ?case by simp
next
  case (Cons c cs)
  show ?case
  proof (cases "cls_annotations c")
    case None
    then show ?thesis using Cons.IH [of flds] by simp
  next
    case (Some a)
    then show ?thesis
      using Cons.IH [of "dict_update flds a"] keys_dict_update [of flds a]
      by (simp add: Un_assoc)
  qed
qed

lemma Base_cls_eval:
  "Base_cls = \<lparr>cls_id = 2, cls_name = ''Base'',
      cls_annotations = Some [(''a'', ''int''), (''b'', ''int'')],
      cls_serializer = Some ''json'', cls_fields = [(''a'', ''int''), (''b'', ''int'')],
      cls_fieldset = {''a'', ''b''}\<rparr>"
  by (simp add: Base_cls_def init_subclass_def Let_def Event_cls_def object_cls_def)

lemma Derived_cls_eval:
  "Derived_cls = \<lparr>cls_id = 3, cls_name = ''Derived'',
      cls_annotations = Some [(''b'', ''str''), (''c'', ''str'')],
      cls_serializer = None,
      cls_fields = [(''a'', ''int''), (''b'', ''str''), (''c'', ''str'')],
      cls_fieldset = {''a'', ''b'', ''c''}\<rparr>"
  by (simp add: Derived_cls_def Base_cls_eval init_subclass_def Let_def Event_cls_def
      object_cls_def)

lemma Order_cls_eval:
  "Order_cls = \<lparr>cls_id = 4, cls_name = ''Order'',
      cls_annotations = Some [(''amount'', ''int''), (''currency'', ''str'')],
      cls_serializer = Some ''json'',
      cls_fields = [(''amount'', ''int''), (''currency'', ''str'')],
      cls_fieldset = {''amount'', ''currency''}\<rparr>"
  by (simp add: Order_cls_def init_subclass_def Let_def Event_cls_def object_cls_def)

lemma SelfField_cls_eval:
  "SelfField_cls = \<lparr>cls_id = 5, cls_name = ''SelfField'',
      cls_annotations = Some [(''self'', ''int'')],
      cls_serializer = None, cls_fields = [(''self'', ''int'')],
      cls_fieldset = {''self''}\<rparr>"
  by (simp add: SelfField_cls_def init_subclass_def Let_def Event_cls_def object_cls_def)


text \<open>Every class that went through \<open>__init_subclass__\<close> has these two properties.\<close>

lemma init_subclass_fieldset:
  "cls_fieldset (init_subclass Event cls ancestors kw)
     = set (map fst (cls_fields (init_subclass Event cls ancestors kw)))"
  by (simp add: init_subclass_def Let_def)

lemma init_subclass_finite:
  "finite (cls_fieldset (init_subclass Event cls ancestors kw))"
  by (simp add: init_subclass_def Let_def)

text \<open>
  C3. Let \<open>Base\<close> derive from \<open>Event\<close> and declare \<open>a\<close> then \<open>b\<close>, and let \<open>Derived\<close> derive
  from \<open>Base\<close> and declare \<open>b\<close> (with another type) then \<open>c\<close>. The schema that
  \<open>__init_subclass__\<close> stores for \<open>Derived\<close> is the ordered mapping \<open>a, b, c\<close>: \<open>b\<close> stays
  where \<open>Base\<close> put it and has the type \<open>Derived\<close> gave it.
\<close>

theorem schema_merge_last_type_first_position:
  assumes "cls_annotations Base = Some [(a, ta), (b, tb)]"
      and "cls_annotations Derived = Some [(b, tb'), (c, tc)]"
      and "a \<noteq> b" and "c \<noteq> a" and "c \<noteq> b"
      and "\<forall>x \<in> set supers. cls_id x \<noteq> cls_id Event"
  shows "cls_fields (init_subclass Event Derived (Base # Event # supers) kw)
           = [(a, ta), (b, tb'), (c, tc)]"
  using assms walk_mro_from_Event [of supers Event Derived "[Base]"]
  by (simp add: init_subclass_def Let_def)

theorem schema_merge_witness:
  "cls_fields Derived_cls = [(''a'', ''int''), (''b'', ''str''), (''c'', ''str'')]"
  unfolding Derived_cls_def
  using schema_merge_last_type_first_position
          [of Base_cls "''a''" "''int''" "''b''" "''int''" _ "''str''" "''c''" "''str''"
              "[object_cls]" Event_cls]
  by (simp add: Base_cls_eval object_cls_def Event_cls_def)

text \<open>
  C7. When the method resolution order of a record type is the type itself, then the
  classes \<open>subs\<close>, then \<open>Event\<close>, then the classes \<open>supers\<close> above \<open>Event\<close>, the field names
  of its schema are exactly the names annotated by the type and by the classes of \<open>subs\<close>:
  neither \<open>Event\<close> nor a class above it contributes a name.
\<close>

theorem schema_excludes_root_and_above:
  assumes "\<forall>x \<in> set supers. cls_id x \<noteq> cls_id Event"
  shows "cls_fieldset (init_subclass Event cls (subs @ Event # supers) kw) =
         (\<Union>c \<in> set (cls # subs).
            case cls_annotations c of None \<Rightarrow> {} | Some a \<Rightarrow> set (map fst a))"
  using walk_mro_from_Event [OF assms, of cls subs]
  by (simp add: init_subclass_def Let_def keys_walk_mro [simplified] Un_commute)

theorem schema_excludes_root_witness:
  "cls_fieldset Derived_cls = {''a'', ''b'', ''c''} \<and> ''req'' \<notin> cls_fieldset Derived_cls"
  unfolding Derived_cls_def
  using schema_excludes_root_and_above [of "[object_cls]" Event_cls _ "[Base_cls]" None]
  by (auto simp add: Base_cls_eval object_cls_def Event_cls_def)

text \<open>
  C10. A class statement that passes no \<open>serializer\<close> keyword leaves the new class with
  \<open>serializer = None\<close>, whatever the attribute was on the class before the assignment (the
  value it would inherit from a base) and whatever the bases are.
\<close>

theorem serializer_reset_when_not_passed:
  "cls_serializer (init_subclass Event cls ancestors None) = None"
  by (simp add: init_subclass_def Let_def)

section \<open>Record construction\<close>

text \<open>The four outcomes of a call \<open>cls(**kw)\<close>, in the order they are decided.\<close>

lemma Event_init_self:
  "''self'' \<in> set (map fst kw) \<Longrightarrow> Event_init cls kw = Inl (MultipleValues ''self'')"
  by (simp add: Event_init_def)

lemma Event_init_missing:
  "''self'' \<notin> set (map fst kw) \<Longrightarrow> cls_fieldset cls - set (map fst kw) \<noteq> {} \<Longrightarrow>
   Event_init cls kw =
     Inl (TypeError (cls_name cls @ '' missing required arguments: ''
            @ str_join '', '' (sorted_list_of_set (cls_fieldset cls - set (map fst kw)))))"
  by (simp add: Event_init_def Let_def)

lemma Event_init_extraneous:
  "''self'' \<notin> set (map fst kw) \<Longrightarrow> cls_fieldset cls - set (map fst kw) = {} \<Longrightarrow>
   set (map fst kw) - cls_fieldset cls \<noteq> {} \<Longrightarrow>
   Event_init cls kw =
     Inl (TypeError (cls_name cls @ '' got unexpected arguments: ''
            @ str_join '', '' (sorted_list_of_set (set (map fst kw) - cls_fieldset cls))))"
  by (simp add: Event_init_def Let_def)

lemma Event_init_ok:
  "''self'' \<notin> set (map fst kw) \<Longrightarrow> set (map fst kw) = cls_fieldset cls \<Longrightarrow>
   Event_init cls kw = Inr \<lparr>ev_type = cls, ev_dict = dict_update [] kw\<rparr>"
  by (simp add: Event_init_def Let_def)

lemma Event_init_Inr_iff:
  "(\<exists>ev. Event_init cls kw = Inr ev) \<longleftrightarrow>
     ''self'' \<notin> set (map fst kw) \<and> set (map fst kw) = cls_fieldset cls"
  by (auto simp add: Event_init_def Let_def)

lemma Event_init_Inr:
  assumes "Event_init cls kw = Inr ev"
  shows "''self'' \<notin> set (map fst kw)" and "set (map fst kw) = cls_fieldset cls"
    and "ev = \<lparr>ev_type = cls, ev_dict = dict_update [] kw\<rparr>"
proof -
  show s: "''self'' \<notin> set (map fst kw)" and k: "set (map fst kw) = cls_fieldset cls"
    using assms Event_init_Inr_iff [of cls kw] by blast+
  show "ev = \<lparr>ev_type = cls, ev_dict = dict_update [] kw\<rparr>"
    using assms Event_init_ok [OF s k] by simp
qed

lemma messages_differ:
  "n @ '' missing required arguments: '' @ x \<noteq> n @ '' got unexpected arguments: '' @ y"
  by simp

text \<open>
  C2, as the code has it. Take a record type with a finite field set and a keyword
  dictionary \<open>kw\<close>. A keyword \<open>self\<close> makes the call raise the interpreter's \<open>TypeError\<close>
  for an argument given twice. Without such a keyword: construction succeeds exactly when
  the keys of \<open>kw\<close> are the field set; when a field is missing it raises the \<open>TypeError\<close>
  that names the missing fields in sorted order; when no field is missing and a key is
  outside the field set it raises the \<open>TypeError\<close> that names those keys in sorted order.
  A successful construction stores \<open>kw\<close> as it is, whatever the declared types and the
  values are.
\<close>

theorem construction_validation:
  assumes "distinct (map fst kw)" and "finite (cls_fieldset cls)"
  shows "(''self'' \<in> set (map fst kw) \<longrightarrow> Event_init cls kw = Inl (MultipleValues ''self''))
       \<and> (''self'' \<notin> set (map fst kw) \<longrightarrow>
            (((\<exists>ev. Event_init cls kw = Inr ev) \<longleftrightarrow> set (map fst kw) = cls_fieldset cls)
             \<and> (cls_fieldset cls - set (map fst kw) \<noteq> {} \<longrightarrow>
                  (\<exists>names. sorted names \<and> distinct names
                     \<and> set names = cls_fieldset cls - set (map fst kw)
                     \<and> Event_init cls kw =
                         Inl (TypeError (cls_name cls @ '' missing required arguments: ''
                                           @ str_join '', '' names))))
             \<and> (cls_fieldset cls - set (map fst kw) = {}
                   \<and> set (map fst kw) - cls_fieldset cls \<noteq> {} \<longrightarrow>
                  (\<exists>names. sorted names \<and> distinct names
                     \<and> set names = set (map fst kw) - cls_fieldset cls
                     \<and> Event_init cls kw =
                         Inl (TypeError (cls_name cls @ '' got unexpected arguments: ''
                                           @ str_join '', '' names))))))
       \<and> (\<forall>ev. Event_init cls kw = Inr ev \<longrightarrow> ev_type ev = cls \<and> ev_dict ev = kw)"
proof -
  let ?missing = "cls_fieldset cls - set (map fst kw)"
  let ?extraneous = "set (map fst kw) - cls_fieldset cls"
  have twice: "Event_init cls kw = Inl (MultipleValues ''self'')"
    if "''self'' \<in> set (map fst kw)"
    using that by (rule Event_init_self)
  have iff: "(\<exists>ev. Event_init cls kw = Inr ev) \<longleftrightarrow> set (map fst kw) = cls_fieldset cls"
    if "''self'' \<notin> set (map fst kw)"
    using that Event_init_Inr_iff [of cls kw] by simp
  have fm: "finite ?missing" using assms(2) by simp
  have fe: "finite ?extraneous" by simp
  have miss: "\<exists>names. sorted names \<and> distinct names \<and> set names = ?missing
               \<and> Event_init cls kw =
                   Inl (TypeError (cls_name cls @ '' missing required arguments: ''
                                     @ str_join '', '' names))"
    if s: "''self'' \<notin> set (map fst kw)" and m: "?missing \<noteq> {}"
  proof (intro exI conjI)
    show "Event_init cls kw =
            Inl (TypeError (cls_name cls @ '' missing required arguments: ''
                              @ str_join '', '' (sorted_list_of_set ?missing)))"
      by (rule Event_init_missing [OF s m])
  qed (use fm in simp_all)
  have extra: "\<exists>names. sorted names \<and> distinct names \<and> set names = ?extraneous
               \<and> Event_init cls kw =
                   Inl (TypeError (cls_name cls @ '' got unexpected arguments: ''
                                     @ str_join '', '' names))"
    if s: "''self'' \<notin> set (map fst kw)" and e: "?missing = {}" "?extraneous \<noteq> {}"
  proof (intro exI conjI)
    show "Event_init cls kw =
            Inl (TypeError (cls_name cls @ '' got unexpected arguments: ''
                              @ str_join '', '' (sorted_list_of_set ?extraneous)))"
      by (rule Event_init_extraneous [OF s e])
  qed (use fe in simp_all)
  have stored: "ev_type ev = cls \<and> ev_dict ev = kw" if ok: "Event_init cls kw = Inr ev" for ev
    using Event_init_Inr(3) [OF ok] dict_update_empty [OF assms(1)] by simp
  show ?thesis using twice iff miss extra stored by blast
qed

theorem construction_validation_witness:
  "(\<exists>ev. Event_init Base_cls [(''b'', ''2''), (''a'', ''1'')] = Inr ev
         \<and> ev_dict ev = [(''b'', ''2''), (''a'', ''1'')])
   \<and> (\<exists>names. set names = {''a''}
         \<and> Event_init Base_cls [(''b'', ''2'')]
             = Inl (TypeError (''Base missing required arguments: '' @ str_join '', '' names)))
   \<and> (\<exists>names. set names = {''z''}
         \<and> Event_init Base_cls [(''b'', ''2''), (''z'', ''0''), (''a'', ''1'')]
             = Inl (TypeError (''Base got unexpected arguments: '' @ str_join '', '' names)))
   \<and> Event_init Base_cls [(''a'', ''1''), (''b'', ''2''), (''self'', ''3'')]
       = Inl (MultipleValues ''self'')"
proof -
  have fin: "finite (cls_fieldset Base_cls)" by (simp add: Base_cls_eval)
  have d1: "distinct (map fst [(''b'', ''2''), (''a'', ''1'')])" by simp
  have s1: "''self'' \<notin> set (map fst [(''b'', ''2''), (''a'', ''1'')])" by simp
  have k1: "set (map fst [(''b'', ''2''), (''a'', ''1'')]) = cls_fieldset Base_cls"
    by (auto simp add: Base_cls_eval)
  have 1: "\<exists>ev. Event_init Base_cls [(''b'', ''2''), (''a'', ''1'')] = Inr ev
         \<and> ev_dict ev = [(''b'', ''2''), (''a'', ''1'')]"
    using construction_validation [OF d1 fin] s1 k1 by blast
  have d2: "distinct (map fst [(''b'', ''2'')])" by simp
  have s2: "''self'' \<notin> set (map fst [(''b'', ''2'')])" by simp
  have k2: "cls_fieldset Base_cls - set (map fst [(''b'', ''2'')]) = {''a''}"
    by (auto simp add: Base_cls_eval)
  have n: "cls_name Base_cls = ''Base''" by (simp add: Base_cls_eval)
  have 2: "\<exists>names. set names = {''a''}
         \<and> Event_init Base_cls [(''b'', ''2'')]
             = Inl (TypeError (''Base missing required arguments: '' @ str_join '', '' names))"
    using construction_validation [OF d2 fin] s2 unfolding k2 n by auto
  have d3: "distinct (map fst [(''b'', ''2''), (''z'', ''0''), (''a'', ''1'')])" by simp
  have s3: "''self'' \<notin> set (map fst [(''b'', ''2''), (''z'', ''0''), (''a'', ''1'')])" by simp
  have k3: "cls_fieldset Base_cls - set (map fst [(''b'', ''2''), (''z'', ''0''), (''a'', ''1'')]) = {}"
    by (auto simp add: Base_cls_eval)
  have e3: "set (map fst [(''b'', ''2''), (''z'', ''0''), (''a'', ''1'')]) - cls_fieldset Base_cls = {''z''}"
    by (auto simp add: Base_cls_eval)
  have 3: "\<exists>names. set names = {''z''}
         \<and> Event_init Base_cls [(''b'', ''2''), (''z'', ''0''), (''a'', ''1'')]
             = Inl (TypeError (''Base got unexpected arguments: '' @ str_join '', '' names))"
    using construction_validation [OF d3 fin] s3 unfolding k3 e3 n by auto
  have d4: "distinct (map fst [(''a'', ''1''), (''b'', ''2''), (''self'', ''3'')])" by simp
  have s4: "''self'' \<in> set (map fst [(''a'', ''1''), (''b'', ''2''), (''self'', ''3'')])" by simp
  have 4: "Event_init Base_cls [(''a'', ''1''), (''b'', ''2''), (''self'', ''3'')]
       = Inl (MultipleValues ''self'')"
    using construction_validation [OF d4 fin] s4 by blast
  show ?thesis using 1 2 3 4 by blast
qed

text \<open>
  C2 as stated fails in two places. Where a key outside the schema comes with a missing
  field: \<open>Base(z=0)\<close> has the extra key \<open>z\<close>, and the error names the missing \<open>a\<close> and \<open>b\<close>,
  not \<open>z\<close>. And where the key is \<open>self\<close>: the keys of \<open>SelfField(self=1)\<close> are the field
  set of \<open>SelfField\<close>, and the call raises.
\<close>

theorem unexpected_masked_counterexample:
  "set (map fst [(''z'', ''0'')]) - cls_fieldset Base_cls = {''z''}
   \<and> Event_init Base_cls [(''z'', ''0'')] = Inl (TypeError ''Base missing required arguments: a, b'')
   \<and> Event_init Base_cls [(''z'', ''0'')] \<noteq> Inl (TypeError ''Base got unexpected arguments: z'')
   \<and> set (map fst [(''self'', ''1'')]) = cls_fieldset SelfField_cls
   \<and> Event_init SelfField_cls [(''self'', ''1'')] = Inl (MultipleValues ''self'')"
  by (simp add: Event_init_def Let_def Base_cls_eval SelfField_cls_eval)

text \<open>
  C5, as the code has it. An input without a key \<open>self\<close> that both omits fields and has
  keys outside the schema is rejected with the missing-fields \<open>TypeError\<close>, computed from
  the whole field set and the whole input; the unexpected-arguments error is not raised
  for it, and no instance is built.
\<close>

theorem missing_reported_first:
  assumes "''self'' \<notin> set (map fst kw)"
      and "cls_fieldset cls - set (map fst kw) \<noteq> {}"
      and "set (map fst kw) - cls_fieldset cls \<noteq> {}"
  shows "Event_init cls kw =
           Inl (TypeError (cls_name cls @ '' missing required arguments: ''
                  @ str_join '', '' (sorted_list_of_set (cls_fieldset cls - set (map fst kw)))))
       \<and> (\<forall>names. Event_init cls kw \<noteq>
                     Inl (TypeError (cls_name cls @ '' got unexpected arguments: ''
                            @ str_join '', '' names)))
       \<and> (\<forall>ev. Event_init cls kw \<noteq> Inr ev)"
  using Event_init_missing [OF assms(1) assms(2)] by simp

theorem missing_reported_first_witness:
  "Event_init Derived_cls [(''a'', ''1''), (''x'', ''9'')]
     = Inl (TypeError ''Derived missing required arguments: b, c'')"
proof -
  have m: "cls_fieldset Derived_cls - set (map fst [(''a'', ''1''), (''x'', ''9'')]) = {''b'', ''c''}"
    by (auto simp add: Derived_cls_eval)
  have e: "set (map fst [(''a'', ''1''), (''x'', ''9'')]) - cls_fieldset Derived_cls = {''x''}"
    by (auto simp add: Derived_cls_eval)
  have "''self'' \<notin> set (map fst [(''a'', ''1''), (''x'', ''9'')])"
   and "cls_fieldset Derived_cls - set (map fst [(''a'', ''1''), (''x'', ''9'')]) \<noteq> {}"
   and "set (map fst [(''a'', ''1''), (''x'', ''9'')]) - cls_fieldset Derived_cls \<noteq> {}"
    unfolding m e by simp_all
  from missing_reported_first [OF this] show ?thesis
    unfolding m by (simp add: Derived_cls_eval)
qed

text \<open>
  C5 as stated fails: \<open>Order(amount=100, colour='red')\<close> lacks \<open>currency\<close> and has the
  extra \<open>colour\<close>; the one error raised reports \<open>currency\<close> only. And
  \<open>Order(amount=1, self=3)\<close>, which lacks \<open>currency\<close> and has the extra \<open>self\<close>, is
  rejected by the call itself with neither of the two errors.
\<close>

theorem both_kinds_counterexample:
  "Event_init Order_cls [(''amount'', ''100''), (''colour'', ''red'')]
     = Inl (TypeError ''Order missing required arguments: currency'')
   \<and> Event_init Order_cls [(''amount'', ''1''), (''self'', ''3'')]
     = Inl (MultipleValues ''self'')"
  by (simp add: Event_init_def Let_def Order_cls_eval)

text \<open>
  C9, as the code has it. The representation of a constructed record is
  \<open><TypeName: k1=v1, k2=v2>\<close> with the fields in the order of the instance dictionary,
  which is the order the keywords were supplied in; pairs are joined by a comma and a
  space and each value is rendered by \<open>repr\<close>.
\<close>

theorem repr_in_supplied_order:
  assumes "distinct (map fst kw)" and "Event_init cls kw = Inr ev"
  shows "Event_repr repr ev =
           ''<'' @ cls_name cls @ '': ''
             @ str_join '', '' (map (\<lambda>(k, v). k @ ''='' @ repr v) kw) @ ''>''"
  using Event_init_Inr(3) [OF assms(2)] dict_update_empty [OF assms(1)]
  by (simp add: Event_repr_def kvrepr_def)

theorem repr_in_supplied_order_witness:
  "map_sum id (Event_repr id) (Event_init Order_cls [(''currency'', ''USD''), (''amount'', ''100'')])
     = Inr ''<Order: currency=USD, amount=100>''"
proof -
  have d: "distinct (map fst [(''currency'', ''USD''), (''amount'', ''100'')])" by simp
  have ok: "Event_init Order_cls [(''currency'', ''USD''), (''amount'', ''100'')]
          = Inr \<lparr>ev_type = Order_cls, ev_dict = dict_update [] [(''currency'', ''USD''), (''amount'', ''100'')]\<rparr>"
    by (rule Event_init_ok) (auto simp add: Order_cls_eval)
  show ?thesis
    unfolding ok using repr_in_supplied_order [OF d ok, of id]
    by (simp add: Order_cls_eval)
qed

text \<open>
  C9 as stated fails: \<open>Base\<close> declares \<open>a\<close> before \<open>b\<close>, and \<open>Base(b=2, a=1)\<close>, each
  value given by its representation, renders \<open>b\<close> first.
\<close>

theorem repr_schema_order_counterexample:
  "cls_fields Base_cls = [(''a'', ''int''), (''b'', ''int'')]
   \<and> map_sum id (Event_repr id) (Event_init Base_cls [(''b'', ''2''), (''a'', ''1'')])
       = Inr ''<Base: b=2, a=1>''
   \<and> map_sum id (Event_repr id) (Event_init Base_cls [(''b'', ''2''), (''a'', ''1'')])
       \<noteq> Inr ''<Base: a=1, b=2>''"
  by (simp add: Event_init_def Let_def Base_cls_eval Event_repr_def kvrepr_def)

section \<open>Serialization\<close>





lemma merge_kwargs_Inr:
  "merge_kwargs kw d = Inr r \<Longrightarrow> r = kw @ d"
  by (induction kw d rule: merge_kwargs.induct) (auto split: if_splits)





section \<open>Construction from a message\<close>

text \<open>
  \<open>from_message\<close> passes the request to \<open>__init__\<close> as the keyword \<open>req\<close>, where it is
  validated like a field: unless the schema itself has a field \<open>req\<close>, no message yields a
  record.
\<close>

lemma from_message_never_succeeds:
  assumes "''req'' \<notin> cls_fieldset cls"
  shows "from_message ser cls key topic partition' message \<noteq> Inr ev"
proof
  assume ok: "from_message ser cls key topic partition' message = Inr ev"
  let ?req = "(''req'', RequestValue \<lparr>req_key = key, req_topic = topic,
                 req_partition = partition', req_message = message\<rparr>)"
  obtain d kw where kw: "merge_kwargs [?req] d = Inr kw" and init: "Event_init cls kw = Inr ev"
    using ok by (auto simp add: from_message_def Event_loads_def Let_def split: sum.splits)
  have "kw = ?req # d" using merge_kwargs_Inr [OF kw] by simp
  then have "''req'' \<in> set (map fst kw) - cls_fieldset cls" using assms by simp
  then show False using init by (auto simp add: Event_init_def Let_def split: if_splits)
qed

text \<open>
  C1, on the \<open>Order\<close> type with the payload \<open>amount = 100, currency = USD\<close>:
  \<open>from_message\<close> raises the unexpected-arguments \<open>TypeError\<close> for its own keyword \<open>req\<close>,
  while \<open>loads\<close> on the same payload, which constructs from the decoded mapping alone,
  returns the record.
\<close>

theorem from_message_rejects_its_own_request:
  "from_message pairs_codec Order_cls ''k1'' ''orders'' 0
       \<lparr>msg_value = [(''amount'', ''100''), (''currency'', ''USD'')]\<rparr>
     = Inl (TypeError ''Order got unexpected arguments: req'')
   \<and> Event_loads pairs_codec Order_cls [(''amount'', ''100''), (''currency'', ''USD'')] []
     = Inr \<lparr>ev_type = Order_cls,
            ev_dict = [(''amount'', PlainValue ''100''), (''currency'', PlainValue ''USD'')]\<rparr>"
  by (simp add: from_message_def Event_loads_def Event_init_def Let_def pairs_codec_def
      Order_cls_eval insert_Diff_if)

section \<open>Joins and bound events\<close>

text \<open>
  C6, on the descriptors of \<open>x\<close> and \<open>y\<close>: \<open>x & y\<close> prints the line
  \<open>join 'x' with 'y'\<close> and returns \<open>None\<close>; with the operands reversed the returned
  value is the same.
\<close>

theorem join_prints_and_returns_None:
  "FieldDescriptor_and repr \<lparr>field = ''x''\<rparr> \<lparr>field = ''y''\<rparr>
     = (''join '' @ repr ''x'' @ '' with '' @ repr ''y'', None)
   \<and> snd (FieldDescriptor_and repr \<lparr>field = ''y''\<rparr> \<lparr>field = ''x''\<rparr>)
     = snd (FieldDescriptor_and repr \<lparr>field = ''x''\<rparr> \<lparr>field = ''y''\<rparr>)"
  by (simp add: FieldDescriptor_and_def FieldDescriptor_join_def)

text \<open>
  C8, on \<open>Derived\<close>, whose schema is \<open>a, b, c\<close> with \<open>a\<close> inherited from \<open>Base\<close>:
  \<open>BoundEvent(Derived, obj)\<close> holds \<open>event\<close>, \<open>obj\<close> and a descriptor for \<open>b\<close> and for
  \<open>c\<close>, the annotations of \<open>Derived\<close> itself; there is no descriptor for \<open>a\<close>.
\<close>

theorem bound_event_misses_inherited_field:
  "map fst (cls_fields Derived_cls) = [''a'', ''b'', ''c'']
   \<and> BoundEvent_init Derived_cls ()
     = Inr [(''event'', EventAttr Derived_cls), (''obj'', ObjAttr ()),
            (''b'', DescriptorAttr \<lparr>field = ''b''\<rparr>),
            (''c'', DescriptorAttr \<lparr>field = ''c''\<rparr>)]"
  by (simp add: BoundEvent_init_def Let_def make_field_descriptor_def FieldDescriptor_init_def
      Derived_cls_eval)

end
